theory Spec2Isabelle
  imports Complex_Main "HOL-Library.Word"
begin

section \<open>JavaScript values used by the species components\<close>

text \<open>
  A JavaScript string is a sequence of UTF-16 code units. \<open>js_str\<close> embeds an ASCII
  literal of the source.
\<close>

type_synonym code_unit = "16 word"
type_synonym jsstring = "code_unit list"

definition js_str :: "string \<Rightarrow> jsstring" where
  "js_str s = map (\<lambda>c. of_nat (of_char c)) s"

text \<open>
  \<open>String.prototype.trim\<close> removes leading and trailing WhiteSpace and LineTerminator
  code points (ECMA-262): TAB, LF, VT, FF, CR, SP, NBSP, U+1680, U+2000 to U+200A,
  U+2028, U+2029, U+202F, U+205F, U+3000 and U+FEFF.
\<close>

definition isWhiteSpace :: "code_unit \<Rightarrow> bool" where
  "isWhiteSpace c =
     (c \<in> {0x9, 0xA, 0xB, 0xC, 0xD, 0x20, 0xA0, 0x1680, 0x2028, 0x2029, 0x202F, 0x205F,
            0x3000, 0xFEFF}
      \<or> (0x2000 \<le> c \<and> c \<le> 0x200A))"

definition trim :: "jsstring \<Rightarrow> jsstring" where
  "trim s = rev (dropWhile isWhiteSpace (rev (dropWhile isWhiteSpace s)))"

text \<open>
  A JavaScript number: NaN, the two infinities, or a finite value (every finite double
  is a rational; negative zero is identified with zero, which no check below tells apart).
\<close>

datatype jsnum = NaN | PosInfinity | NegInfinity | Finite rat

fun isInteger :: "jsnum \<Rightarrow> bool" where
  "isInteger (Finite q) = (of_int \<lfloor>q\<rfloor> = q)"
| "isInteger _ = False"

fun num_le :: "jsnum \<Rightarrow> rat \<Rightarrow> bool" where
  "num_le (Finite q) c = (q \<le> c)"
| "num_le NegInfinity c = True"
| "num_le _ c = False"

fun num_lt :: "jsnum \<Rightarrow> rat \<Rightarrow> bool" where
  "num_lt (Finite q) c = (q < c)"
| "num_lt NegInfinity c = True"
| "num_lt _ c = False"

text \<open>
  Unary plus on a string (\<open>+event.target.value\<close>) is StringToNumber: the string is
  stripped of white space, the empty string is 0, and anything else is read by the
  StrNumericLiteral grammar. That grammar and its rounding to a double belong to the
  JavaScript engine and are the parameter \<open>lit\<close> (which yields NaN on a string that is
  not a numeric literal).
\<close>

definition unary_plus :: "(jsstring \<Rightarrow> jsnum) \<Rightarrow> jsstring \<Rightarrow> jsnum" where
  "unary_plus lit s = (let t = trim s in if t = [] then Finite 0 else lit t)"

subsection \<open>The URL constructor, as far as its scheme\<close>

text \<open>
  zod's \<open>.url()\<close> check accepts a string when \<open>new URL(s)\<close> does not throw. The URL
  parser (WHATWG URL, no base URL) strips leading and trailing C0 controls and spaces,
  removes ASCII tabs and newlines, and then needs a scheme: an ASCII letter, then letters,
  digits, \<open>+\<close>, \<open>-\<close> or \<open>.\<close>, then a colon. Without one it fails, since there is no
  base URL. What follows the scheme is parsed by the rest of the state machine, which is
  the parameter \<open>after_scheme\<close> (given the lower-cased scheme and the remaining input).
\<close>

definition isC0ControlOrSpace :: "code_unit \<Rightarrow> bool" where
  "isC0ControlOrSpace c = (c \<le> 0x20)"

definition isAsciiTabOrNewline :: "code_unit \<Rightarrow> bool" where
  "isAsciiTabOrNewline c = (c \<in> {0x9, 0xA, 0xD})"

definition isAsciiAlpha :: "code_unit \<Rightarrow> bool" where
  "isAsciiAlpha c = ((0x41 \<le> c \<and> c \<le> 0x5A) \<or> (0x61 \<le> c \<and> c \<le> 0x7A))"

definition isAsciiDigit :: "code_unit \<Rightarrow> bool" where
  "isAsciiDigit c = (0x30 \<le> c \<and> c \<le> 0x39)"

definition asciiLower :: "code_unit \<Rightarrow> code_unit" where
  "asciiLower c = (if 0x41 \<le> c \<and> c \<le> 0x5A then c + 0x20 else c)"

fun scheme_state :: "jsstring \<Rightarrow> jsstring \<Rightarrow> (jsstring \<times> jsstring) option" where
  "scheme_state buffer [] = None"
| "scheme_state buffer (c # cs) =
     (if isAsciiAlpha c \<or> isAsciiDigit c \<or> c \<in> {0x2B, 0x2D, 0x2E}
      then scheme_state (buffer @ [asciiLower c]) cs
      else if c = 0x3A then Some (buffer, cs)
      else None)"

definition scheme_start_state :: "jsstring \<Rightarrow> (jsstring \<times> jsstring) option" where
  "scheme_start_state input =
     (case input of
        [] \<Rightarrow> None
      | c # cs \<Rightarrow> if isAsciiAlpha c then scheme_state [asciiLower c] cs else None)"

definition URL_parses :: "(jsstring \<Rightarrow> jsstring \<Rightarrow> bool) \<Rightarrow> jsstring \<Rightarrow> bool" where
  "URL_parses after_scheme s =
     (let stripped = rev (dropWhile isC0ControlOrSpace (rev (dropWhile isC0ControlOrSpace s)));
          input = filter (\<lambda>c. \<not> isAsciiTabOrNewline c) stripped
      in case scheme_start_state input of
           None \<Rightarrow> False
         | Some (scheme, rest) \<Rightarrow> after_scheme scheme rest)"

section \<open>The record schema and validator (speciesSchema)\<close>

text \<open>
  \<open>FormData\<close>, the shape of the form's values and of the schema's output. A kingdom is
  one of six string literals, so it stays a string.
\<close>

record FormData =
  scientific_name :: jsstring
  common_name :: "jsstring option"
  kingdom :: jsstring
  total_population :: "jsnum option"
  image :: "jsstring option"
  description :: "jsstring option"
  endangered :: bool

datatype issue_code = invalid_type | too_small | invalid_string | invalid_enum_value

text \<open>An issue of zod: the key of the field it is about, and its code.\<close>

type_synonym issue = "string \<times> issue_code"

definition kingdoms :: "jsstring list" where
  "kingdoms = map js_str [''Animalia'', ''Plantae'', ''Fungi'', ''Protista'', ''Archaea'', ''Bacteria'']"

text \<open>\<open>z.string().trim().min(1).transform((val) => val?.trim())\<close>\<close>

definition scientific_name_schema :: "jsstring \<Rightarrow> issue_code list + jsstring" where
  "scientific_name_schema val =
     (let t = trim val in if length t < 1 then Inl [too_small] else Inr (trim t))"

text \<open>
  The transform shared by the three optional string fields:
  \<open>(val) => (!val || val.trim() === "" ? null : val.trim())\<close>.
  \<open>!val\<close> holds of null and of the empty string.
\<close>

definition null_if_blank :: "jsstring option \<Rightarrow> jsstring option" where
  "null_if_blank val =
     (case val of
        None \<Rightarrow> None
      | Some v \<Rightarrow> if v = [] \<or> trim v = [] then None else Some (trim v))"

text \<open>\<open>z.string().nullable().transform(...)\<close>: no check can fail on a string or null.\<close>

definition optional_text_schema :: "jsstring option \<Rightarrow> issue_code list + jsstring option" where
  "optional_text_schema val = Inr (null_if_blank val)"

text \<open>\<open>z.enum([...])\<close>\<close>

definition kingdom_schema :: "jsstring \<Rightarrow> issue_code list + jsstring" where
  "kingdom_schema val = (if val \<in> set kingdoms then Inr val else Inl [invalid_enum_value])"

text \<open>
  \<open>z.number().int().positive().min(1).nullable()\<close>: null passes; NaN is not a number
  for zod and aborts the field; otherwise every failing check adds its issue, in the
  order the checks were declared.
\<close>

definition total_population_schema :: "jsnum option \<Rightarrow> issue_code list + jsnum option" where
  "total_population_schema val =
     (case val of
        None \<Rightarrow> Inr None
      | Some n \<Rightarrow>
          if n = NaN then Inl [invalid_type]
          else
            (let issues = (if isInteger n then [] else [invalid_type])
                        @ (if num_le n 0 then [too_small] else [])
                        @ (if num_lt n 1 then [too_small] else [])
             in if issues = [] then Inr (Some n) else Inl issues))"

text \<open>
  \<open>z.string().url().nullable().transform(...)\<close>: null passes to the transform; a string
  is checked by \<open>.url()\<close> first, and the transform runs only on a string that passed.
\<close>

definition image_schema ::
  "(jsstring \<Rightarrow> jsstring \<Rightarrow> bool) \<Rightarrow> jsstring option \<Rightarrow> issue_code list + jsstring option" where
  "image_schema after_scheme val =
     (case val of
        None \<Rightarrow> Inr (null_if_blank None)
      | Some v \<Rightarrow>
          if URL_parses after_scheme v then Inr (null_if_blank (Some v))
          else Inl [invalid_string])"

definition issues_at :: "string \<Rightarrow> issue_code list + 'a \<Rightarrow> issue list" where
  "issues_at key r = (case r of Inl codes \<Rightarrow> map (Pair key) codes | Inr _ \<Rightarrow> [])"

text \<open>
  \<open>z.object({...})\<close> parses every key, in the order of the shape, and gathers the issues
  of all of them; the output exists only when there is none. \<open>endangered\<close> is
  \<open>z.boolean()\<close>, which a boolean always passes.
\<close>

definition speciesSchema_issues ::
  "(jsstring \<Rightarrow> jsstring \<Rightarrow> bool) \<Rightarrow> FormData \<Rightarrow> issue list" where
  "speciesSchema_issues after_scheme input =
     issues_at ''scientific_name'' (scientific_name_schema (scientific_name input))
     @ issues_at ''common_name'' (optional_text_schema (common_name input))
     @ issues_at ''kingdom'' (kingdom_schema (kingdom input))
     @ issues_at ''total_population'' (total_population_schema (total_population input))
     @ issues_at ''image'' (image_schema after_scheme (image input))
     @ issues_at ''description'' (optional_text_schema (description input))"

definition speciesSchema ::
  "(jsstring \<Rightarrow> jsstring \<Rightarrow> bool) \<Rightarrow> FormData \<Rightarrow> issue list + FormData" where
  "speciesSchema after_scheme input =
     (case (scientific_name_schema (scientific_name input),
            optional_text_schema (common_name input),
            kingdom_schema (kingdom input),
            total_population_schema (total_population input),
            image_schema after_scheme (image input),
            optional_text_schema (description input)) of
        (Inr a, Inr b, Inr c, Inr d, Inr e, Inr f) \<Rightarrow>
          Inr \<lparr>scientific_name = a, common_name = b, kingdom = c, total_population = d,
               image = e, description = f, endangered = endangered input\<rparr>
      | _ \<Rightarrow> Inl (speciesSchema_issues after_scheme input))"

section \<open>The record detail dialog (SpeciesDetailsDialog)\<close>

text \<open>A row of the species table: the form's fields, the row identifier and its author.\<close>

record Species = FormData +
  species_id :: int
  author :: jsstring

datatype toast_variant = Default | Destructive

text \<open>
  What the dialog does to the outside, in the order it does it: \<open>window.confirm\<close>, the
  update and delete requests to the species table (by row identifier), \<open>toast\<close> with its
  title, description and variant, and \<open>router.refresh\<close>.
\<close>

datatype effect =
    window_confirm jsstring
  | supabase_update int FormData
  | supabase_delete int
  | toast jsstring jsstring toast_variant
  | router_refresh

fun is_toast :: "effect \<Rightarrow> bool" where
  "is_toast (toast t d v) = True"
| "is_toast _ = False"

fun is_persistence :: "effect \<Rightarrow> bool" where
  "is_persistence (supabase_update i v) = True"
| "is_persistence (supabase_delete i) = True"
| "is_persistence _ = False"

text \<open>
  The component's props and state. The form of react-hook-form holds the current values
  (the draft) and the default values it resets to (its baseline). The inline messages are
  a rendering of the schema's issues for the current values and are not kept here; the
  author information shown above the form has no part in the operations below.
\<close>

record Dialog =
  species :: Species
  currentUser :: jsstring
  isEditing :: bool
  form_values :: FormData
  form_defaults :: FormData

definition defaultValues :: "Species \<Rightarrow> FormData" where
  "defaultValues sp =
     \<lparr>scientific_name = scientific_name sp, common_name = common_name sp,
      kingdom = kingdom sp, total_population = total_population sp, image = image sp,
      description = description sp, endangered = endangered sp\<rparr>"

text \<open>The first render: \<open>useState(false)\<close> and \<open>useForm({defaultValues})\<close>.\<close>

definition SpeciesDetailsDialog :: "Species \<Rightarrow> jsstring \<Rightarrow> Dialog" where
  "SpeciesDetailsDialog sp user =
     \<lparr>species = sp, currentUser = user, isEditing = False,
      form_values = defaultValues sp, form_defaults = defaultValues sp\<rparr>"

text \<open>\<open>form.reset(values)\<close> replaces both the values and the defaults of the form.\<close>

definition form_reset :: "FormData \<Rightarrow> Dialog \<Rightarrow> Dialog" where
  "form_reset values d = d\<lparr>form_values := values, form_defaults := values\<rparr>"

text \<open>
  \<open>onSubmit\<close>. The answer of the backend is the message of its error, or \<open>None\<close> when
  there is no error.
\<close>

definition onSubmit :: "Dialog \<Rightarrow> FormData \<Rightarrow> jsstring option \<Rightarrow> Dialog \<times> effect list" where
  "onSubmit d input response =
     (case response of
        Some message \<Rightarrow>
          (d, [supabase_update (species_id (species d)) input,
               toast (js_str ''st went wrong'') message Destructive])
      | None \<Rightarrow>
          (form_reset input (d\<lparr>isEditing := False\<rparr>),
           [supabase_update (species_id (species d)) input,
            router_refresh,
            toast (js_str ''Changes saved!'')
              (js_str ''Saved your changes to '' @ scientific_name input @ js_str ''.'')
              Default]))"

text \<open>
  \<open>form.handleSubmit(onSubmit)\<close>: the resolver runs the schema on the current values,
  and \<open>onSubmit\<close> is called with the schema's output only when there is no issue.
\<close>

definition handleSubmit ::
  "(jsstring \<Rightarrow> jsstring \<Rightarrow> bool) \<Rightarrow> Dialog \<Rightarrow> jsstring option \<Rightarrow> Dialog \<times> effect list" where
  "handleSubmit after_scheme d response =
     (case speciesSchema after_scheme (form_values d) of
        Inl issues \<Rightarrow> (d, [])
      | Inr input \<Rightarrow> onSubmit d input response)"

definition startEditing :: "Dialog \<Rightarrow> Dialog" where
  "startEditing d = d\<lparr>isEditing := True\<rparr>"


text \<open>
  \<open>onDelete\<close>, given the user's answer to \<open>window.confirm\<close> and the answer of the
  backend. The error branch does not return.
\<close>

definition onDelete :: "Dialog \<Rightarrow> bool \<Rightarrow> jsstring option \<Rightarrow> Dialog \<times> effect list" where
  "onDelete d confirmed response =
     (if confirmed then
        (d, [window_confirm (js_str ''Are you sure you want to delete this species?''),
             supabase_delete (species_id (species d))]
            @ (case response of
                 Some message \<Rightarrow> [toast (js_str ''st went wrong'') message Destructive]
               | None \<Rightarrow> [])
            @ [router_refresh,
               toast (js_str ''Deletion saved!'')
                 (js_str ''Deleted '' @ scientific_name (species d) @ js_str '' successfully.'')
                 Default])
      else (d, [window_confirm (js_str ''Are you sure you want to delete this species?'')]))"

text \<open>
  The change handler of the total population input:
  \<open>field.onChange(+event.target.value)\<close>.
\<close>

definition total_population_onChange :: "(jsstring \<Rightarrow> jsnum) \<Rightarrow> Dialog \<Rightarrow> jsstring \<Rightarrow> Dialog" where
  "total_population_onChange lit d value =
     d\<lparr>form_values := (form_values d)\<lparr>total_population := Some (unary_plus lit value)\<rparr>\<rparr>"

text \<open>The buttons below the form, as the component renders them.\<close>

datatype button = Confirm_button | Cancel_button | Edit_species_button | Delete_species_button

definition buttons :: "Dialog \<Rightarrow> button list" where
  "buttons d =
     (if author (species d) = currentUser d
      then (if isEditing d then [Confirm_button, Cancel_button]
            else [Edit_species_button, Delete_species_button])
      else [])"

section \<open>The list sort controller (SpeciesListClient)\<close>

text \<open>
  \<open>Array.prototype.sort\<close> with a comparison function is a stable sort (ECMAScript 2019):
  an element goes before the ones it compares less than or equal to and that came after
  it. For a consistent comparison function this is the one result the standard allows.
\<close>

fun insert_sorted :: "('a \<Rightarrow> 'a \<Rightarrow> int) \<Rightarrow> 'a \<Rightarrow> 'a list \<Rightarrow> 'a list" where
  "insert_sorted f x [] = [x]"
| "insert_sorted f x (y # ys) = (if f x y \<le> 0 then x # y # ys else y # insert_sorted f x ys)"

definition Array_sort :: "('a \<Rightarrow> 'a \<Rightarrow> int) \<Rightarrow> 'a list \<Rightarrow> 'a list" where
  "Array_sort f xs = foldr (insert_sorted f) xs []"

text \<open>
  The comparison function of both variants. \<open>toLowerCase\<close> and \<open>localeCompare\<close> follow
  Unicode and the locale of the engine; they are the parameters \<open>lower\<close> and \<open>compare\<close>.
\<close>

definition compareFn ::
  "(jsstring \<Rightarrow> jsstring) \<Rightarrow> (jsstring \<Rightarrow> jsstring \<Rightarrow> int) \<Rightarrow> jsstring \<Rightarrow> Species \<Rightarrow> Species \<Rightarrow> int" where
  "compareFn lower compare order speciesA speciesB =
     (let scientificNameA = lower (scientific_name speciesA);
          scientificNameB = lower (scientific_name speciesB);
          comparisonResult = compare scientificNameA scientificNameB
      in if order = js_str ''asc'' then comparisonResult else - comparisonResult)"

text \<open>
  Arrays are objects: \<open>heap\<close> maps a reference to the array's elements, \<open>next_ref\<close> is
  the next unused reference. \<open>initialSpecies\<close> is the prop, \<open>species_state\<close> and
  \<open>sortOrder\<close> are the two state variables, and \<open>screen\<close> is the list of cards that
  the last render produced.
\<close>

record ListClient =
  heap :: "nat \<Rightarrow> Species list"
  next_ref :: nat
  initialSpecies :: nat
  species_state :: nat
  sortOrder :: jsstring
  screen :: "Species list"

text \<open>
  A render maps over the array that the \<open>species\<close> state refers to, as that array is at
  the time: \<open>species.map((species) => <SpeciesCard ... />)\<close>.
\<close>

definition render :: "ListClient \<Rightarrow> ListClient" where
  "render s = s\<lparr>screen := heap s (species_state s)\<rparr>"

text \<open>
  The setters of \<open>useState\<close>: React renders again when the new value differs from the
  one in state, and does nothing when it is the same value (for an array, the same
  reference).
\<close>

definition setSpecies :: "nat \<Rightarrow> ListClient \<Rightarrow> ListClient" where
  "setSpecies r s = (if r = species_state s then s else render (s\<lparr>species_state := r\<rparr>))"


text \<open>The displayed ordering: what is on the screen.\<close>

definition displayed :: "ListClient \<Rightarrow> Species list" where
  "displayed s = screen s"

subsection \<open>species-list-client.tsx: a sorted copy, sort order in local state\<close>

text \<open>
  The effect: \<open>[...initialSpecies].sort(...)\<close> makes a new array and sorts that, and
  \<open>setSpecies\<close> receives the new array.
\<close>

definition useEffect_sort ::
  "(jsstring \<Rightarrow> jsstring) \<Rightarrow> (jsstring \<Rightarrow> jsstring \<Rightarrow> int) \<Rightarrow> ListClient \<Rightarrow> ListClient" where
  "useEffect_sort lower compare s =
     (let sortedSpecies =
            Array_sort (compareFn lower compare (sortOrder s)) (heap s (initialSpecies s));
          r = next_ref s
      in setSpecies r (s\<lparr>heap := (heap s)(r := sortedSpecies), next_ref := Suc r\<rparr>))"

text \<open>
  The mount of a list whose prop holds \<open>xs\<close>: \<open>useState(initialSpecies)\<close> and
  \<open>useState("asc")\<close>, the first render, and then the effect, which runs before any
  click is handled.
\<close>

definition SpeciesListClient ::
  "(jsstring \<Rightarrow> jsstring) \<Rightarrow> (jsstring \<Rightarrow> jsstring \<Rightarrow> int) \<Rightarrow> Species list \<Rightarrow> ListClient" where
  "SpeciesListClient lower compare xs =
     useEffect_sort lower compare
       (render \<lparr>heap = (\<lambda>r. [])(0 := xs), next_ref = 1, initialSpecies = 0,
                species_state = 0, sortOrder = js_str ''asc'', screen = []\<rparr>)"




subsection \<open>The second variant (part_000): sort in place, sort order from the URL\<close>

text \<open>
  The effect: \<open>initialSpecies.sort(...)\<close> sorts the prop's array itself and returns the
  same array, which \<open>setSpecies\<close> receives.
\<close>

definition useEffect_sort_part000 ::
  "(jsstring \<Rightarrow> jsstring) \<Rightarrow> (jsstring \<Rightarrow> jsstring \<Rightarrow> int) \<Rightarrow> ListClient \<Rightarrow> ListClient" where
  "useEffect_sort_part000 lower compare s =
     (let sortedSpecies =
            Array_sort (compareFn lower compare (sortOrder s)) (heap s (initialSpecies s))
      in setSpecies (initialSpecies s) (s\<lparr>heap := (heap s)(initialSpecies s := sortedSpecies)\<rparr>))"

text \<open>
  The mount, with \<open>router.query.sort\<close> (absent, or a string):
  \<open>useState(initialSpecies)\<close> and \<open>useState(router.query.sort || "asc")\<close>, the first
  render, and then the effect. The click handler of this variant only calls
  \<open>router.push\<close>; what is rendered after that navigation is decided by the router of
  the framework, which is not part of the repository, so no click is modelled for it.
\<close>

definition SpeciesListClient_part000 ::
  "(jsstring \<Rightarrow> jsstring) \<Rightarrow> (jsstring \<Rightarrow> jsstring \<Rightarrow> int) \<Rightarrow> jsstring option \<Rightarrow> Species list
     \<Rightarrow> ListClient" where
  "SpeciesListClient_part000 lower compare query_sort xs =
     useEffect_sort_part000 lower compare
       (render \<lparr>heap = (\<lambda>r. [])(0 := xs), next_ref = 1, initialSpecies = 0,
                species_state = 0,
                sortOrder = (case query_sort of None \<Rightarrow> js_str ''asc''
                             | Some q \<Rightarrow> if q = [] then js_str ''asc'' else q),
                screen = []\<rparr>)"

text \<open>
  A collation for evaluating the model on examples: the order of the code units.
\<close>

fun compare_code_units :: "jsstring \<Rightarrow> jsstring \<Rightarrow> int" where
  "compare_code_units [] [] = 0"
| "compare_code_units [] (y # ys) = - 1"
| "compare_code_units (x # xs) [] = 1"
| "compare_code_units (x # xs) (y # ys) =
     (if x < y then - 1 else if y < x then 1 else compare_code_units xs ys)"

definition example_species :: "string \<Rightarrow> int \<Rightarrow> Species" where
  "example_species name i =
     \<lparr>scientific_name = js_str name, common_name = None, kingdom = js_str ''Animalia'',
      total_population = None, image = None, description = None, endangered = False,
      species_id = i, author = js_str ''u1''\<rparr>"


section \<open>Properties of the validator\<close>

lemma dropWhile_all_iff: "(\<forall>x\<in>set (dropWhile P s). P x) \<longleftrightarrow> (\<forall>x\<in>set s. P x)"
  by (induction s) auto

lemma trim_Nil_iff: "trim s = [] \<longleftrightarrow> list_all isWhiteSpace s"
  by (simp add: trim_def list_all_iff dropWhile_all_iff)

lemma strip_end_Cons:
  "\<not> P y \<Longrightarrow> rev (dropWhile P (rev (y # ys))) = y # rev (dropWhile P (rev ys))"
  by (simp add: dropWhile_append)

lemma trim_ends:
  assumes "\<not> list_all isWhiteSpace s"
  shows "trim s \<noteq> []" and "\<not> isWhiteSpace (hd (trim s))" and "\<not> isWhiteSpace (last (trim s))"
proof -
  from assms show ne: "trim s \<noteq> []" by (simp add: trim_Nil_iff)
  from assms have d: "dropWhile isWhiteSpace s \<noteq> []"
    by (simp add: list_all_iff)
  then obtain y ys where yys: "dropWhile isWhiteSpace s = y # ys"
    by (cases "dropWhile isWhiteSpace s") auto
  have ny: "\<not> isWhiteSpace y"
    using hd_dropWhile [OF d] yys by simp
  have "trim s = y # rev (dropWhile isWhiteSpace (rev ys))"
    unfolding trim_def yys by (rule strip_end_Cons [where P = isWhiteSpace, OF ny])
  then show "\<not> isWhiteSpace (hd (trim s))" using ny by simp
  from ne have r: "dropWhile isWhiteSpace (rev (dropWhile isWhiteSpace s)) \<noteq> []"
    by (simp add: trim_def)
  have "last (trim s) = hd (dropWhile isWhiteSpace (rev (dropWhile isWhiteSpace s)))"
    using r by (simp add: trim_def last_rev)
  then show "\<not> isWhiteSpace (last (trim s))"
    using hd_dropWhile [OF r] by simp
qed

lemma null_if_blank_Some:
  "null_if_blank (Some v) = (if list_all isWhiteSpace v then None else Some (trim v))"
  by (cases v) (simp_all add: null_if_blank_def trim_Nil_iff)

lemma null_if_blank_cases:
  "null_if_blank x
     = (case x of None \<Rightarrow> None
        | Some v \<Rightarrow> if list_all isWhiteSpace v then None else Some (trim v))"
proof (cases x)
  case None
  then show ?thesis by (simp add: null_if_blank_def)
next
  case (Some v)
  then show ?thesis by (simp add: null_if_blank_Some)
qed

lemma null_if_blank_not_empty: "null_if_blank x \<noteq> Some []"
  by (cases x) (auto simp: null_if_blank_def)

lemma speciesSchema_Inr:
  "speciesSchema U input = Inr out \<Longrightarrow>
     common_name out = null_if_blank (common_name input)
     \<and> description out = null_if_blank (description input)"
  by (auto simp: speciesSchema_def optional_text_schema_def split: sum.splits)

lemma speciesSchema_population_Inl:
  "total_population_schema (total_population input) = Inl cs \<Longrightarrow>
     speciesSchema U input = Inl (speciesSchema_issues U input)"
  by (simp add: speciesSchema_def split: sum.splits)

lemma speciesSchema_image_Inl:
  "image_schema U (image input) = Inl cs \<Longrightarrow>
     speciesSchema U input = Inl (speciesSchema_issues U input)"
  by (simp add: speciesSchema_def split: sum.splits)

lemma URL_parses_spaces: "\<not> URL_parses U (replicate n 0x20)"
  by (simp add: URL_parses_def isC0ControlOrSpace_def scheme_start_state_def)

text \<open>
  C3. An empty or white-space-only value of the optional URL field normalises to the
  absent marker and does not fail validation. The code departs from this: \<open>.url()\<close> is
  checked before \<open>.nullable()\<close> and the transform, so the empty string and every string
  of spaces is rejected as an invalid URL, whatever the rest of the URL parser accepts,
  and the schema fails with an issue for \<open>image\<close>. The transform that would have
  produced the absent marker never runs on it.
\<close>

theorem image_blank_fails_url_check:
  "image_schema after_scheme (Some (replicate n 0x20)) = Inl [invalid_string]
   \<and> speciesSchema after_scheme (input\<lparr>image := Some (replicate n 0x20)\<rparr>)
       = Inl (speciesSchema_issues after_scheme (input\<lparr>image := Some (replicate n 0x20)\<rparr>))
   \<and> (''image'', invalid_string)
       \<in> set (speciesSchema_issues after_scheme (input\<lparr>image := Some (replicate n 0x20)\<rparr>))
   \<and> null_if_blank (Some (replicate n 0x20)) = None"
proof -
  have i: "image_schema after_scheme (Some (replicate n 0x20)) = Inl [invalid_string]"
    by (simp add: image_schema_def URL_parses_spaces)
  have s: "speciesSchema after_scheme (input\<lparr>image := Some (replicate n 0x20)\<rparr>)
       = Inl (speciesSchema_issues after_scheme (input\<lparr>image := Some (replicate n 0x20)\<rparr>))"
    by (rule speciesSchema_image_Inl [where cs = "[invalid_string]"]) (simp add: i)
  have m: "(''image'', invalid_string)
       \<in> set (speciesSchema_issues after_scheme (input\<lparr>image := Some (replicate n 0x20)\<rparr>))"
    by (simp add: speciesSchema_issues_def i issues_at_def)
  have n: "null_if_blank (Some (replicate n 0x20)) = None"
    by (simp add: null_if_blank_def trim_def isWhiteSpace_def)
  from i s m n show ?thesis by blast
qed

text \<open>
  C8. The optional text fields, common name and description, never raise an issue. A
  null, empty or white-space-only value yields the absent marker; any other value yields
  its trimmed text, which is not empty and neither starts nor ends with white space. The
  output is never the empty string. Whenever the schema succeeds, its output holds these
  values for both fields.
\<close>

theorem optional_text_blank_to_null:
  "optional_text_schema None = Inr None
   \<and> optional_text_schema (Some s)
       = Inr (if list_all isWhiteSpace s then None else Some (trim s))
   \<and> optional_text_schema val \<noteq> Inr (Some [])
   \<and> (\<not> list_all isWhiteSpace s \<longrightarrow>
        trim s \<noteq> [] \<and> \<not> isWhiteSpace (hd (trim s)) \<and> \<not> isWhiteSpace (last (trim s)))
   \<and> (speciesSchema after_scheme input = Inr out \<longrightarrow>
        common_name out
          = (case common_name input of None \<Rightarrow> None
             | Some v \<Rightarrow> if list_all isWhiteSpace v then None else Some (trim v))
        \<and> description out
          = (case description input of None \<Rightarrow> None
             | Some v \<Rightarrow> if list_all isWhiteSpace v then None else Some (trim v)))"
proof -
  have e: "\<not> list_all isWhiteSpace s \<longrightarrow>
        trim s \<noteq> [] \<and> \<not> isWhiteSpace (hd (trim s)) \<and> \<not> isWhiteSpace (last (trim s))"
    using trim_ends [of s] by blast
  have f: "speciesSchema after_scheme input = Inr out \<longrightarrow>
        common_name out
          = (case common_name input of None \<Rightarrow> None
             | Some v \<Rightarrow> if list_all isWhiteSpace v then None else Some (trim v))
        \<and> description out
          = (case description input of None \<Rightarrow> None
             | Some v \<Rightarrow> if list_all isWhiteSpace v then None else Some (trim v))"
    using speciesSchema_Inr [of after_scheme input out] by (simp flip: null_if_blank_cases)
  have g: "optional_text_schema None = Inr None"
    by (simp add: optional_text_schema_def null_if_blank_def)
  have h: "optional_text_schema (Some s)
       = Inr (if list_all isWhiteSpace s then None else Some (trim s))"
    by (simp add: optional_text_schema_def null_if_blank_Some)
  have i: "optional_text_schema val \<noteq> Inr (Some [])"
    by (simp add: optional_text_schema_def null_if_blank_not_empty)
  from g h i e f show ?thesis by blast
qed

theorem optional_text_blank_to_null_witness:
  "\<not> list_all isWhiteSpace (js_str '' a cat '')
   \<and> trim (js_str '' a cat '') = js_str ''a cat''
   \<and> \<not> isWhiteSpace (hd (trim (js_str '' a cat '')))
   \<and> \<not> isWhiteSpace (last (trim (js_str '' a cat '')))
   \<and> speciesSchema (\<lambda>scheme rest. True)
        \<lparr>scientific_name = js_str ''Felis catus'', common_name = Some (js_str ''  ''),
         kingdom = js_str ''Animalia'', total_population = None, image = None,
         description = Some (js_str '' a cat ''), endangered = False\<rparr>
       = Inr \<lparr>scientific_name = js_str ''Felis catus'', common_name = None,
         kingdom = js_str ''Animalia'', total_population = None, image = None,
         description = Some (js_str ''a cat''), endangered = False\<rparr>
   \<and> common_name \<lparr>scientific_name = js_str ''Felis catus'', common_name = None,
         kingdom = js_str ''Animalia'', total_population = None, image = None,
         description = Some (js_str ''a cat''), endangered = False\<rparr> = None"
  using optional_text_blank_to_null [of "js_str '' a cat ''" None "\<lambda>scheme rest. True"
      "\<lparr>scientific_name = js_str ''Felis catus'', common_name = Some (js_str ''  ''),
         kingdom = js_str ''Animalia'', total_population = None, image = None,
         description = Some (js_str '' a cat ''), endangered = False\<rparr>"
      "\<lparr>scientific_name = js_str ''Felis catus'', common_name = None,
         kingdom = js_str ''Animalia'', total_population = None, image = None,
         description = Some (js_str ''a cat''), endangered = False\<rparr>"]
  by (simp add: speciesSchema_def scientific_name_schema_def optional_text_schema_def
      kingdom_schema_def total_population_schema_def image_schema_def null_if_blank_def
      kingdoms_def js_str_def trim_def isWhiteSpace_def)

text \<open>
  C9. The record with scientific name "Felis catus", the empty string as common name,
  kingdom "Animalia" and total population 0 (no image; any description and flag) fails
  validation, and every issue reported is for the population field: 0 fails both
  \<open>.positive()\<close> and \<open>.min(1)\<close>. The empty common name raises no issue and
  normalises to the absent marker.
\<close>

theorem felis_catus_population_issue_only:
  "speciesSchema after_scheme
     \<lparr>scientific_name = js_str ''Felis catus'', common_name = Some (js_str []),
      kingdom = js_str ''Animalia'', total_population = Some (Finite 0), image = None,
      description = d, endangered = e\<rparr>
     = Inl [(''total_population'', too_small), (''total_population'', too_small)]
   \<and> optional_text_schema (Some (js_str [])) = Inr None"
  by (simp add: speciesSchema_def speciesSchema_issues_def scientific_name_schema_def
      optional_text_schema_def kingdom_schema_def total_population_schema_def image_schema_def
      issues_at_def null_if_blank_def kingdoms_def js_str_def trim_def isWhiteSpace_def)

text \<open>
  C10. The change handler of the total population input stores the unary-plus coercion
  of the raw string. For the cleared field (the empty string) that is the number 0, not
  the absent marker; 0 fails the population checks, so the schema fails with an issue
  for \<open>total_population\<close> whatever the other fields hold, and a submit issues no
  request and changes nothing.
\<close>

theorem population_cleared_stores_zero:
  "form_values (total_population_onChange lit d value)
     = (form_values d)\<lparr>total_population := Some (unary_plus lit value)\<rparr>
   \<and> total_population (form_values (total_population_onChange lit d [])) = Some (Finite 0)
   \<and> total_population_schema (Some (Finite 0)) = Inl [too_small, too_small]
   \<and> speciesSchema after_scheme (form_values (total_population_onChange lit d []))
       = Inl (speciesSchema_issues after_scheme (form_values (total_population_onChange lit d [])))
   \<and> (''total_population'', too_small)
       \<in> set (speciesSchema_issues after_scheme (form_values (total_population_onChange lit d [])))
   \<and> handleSubmit after_scheme (total_population_onChange lit d []) response
       = (total_population_onChange lit d [], [])"
proof -
  let ?d = "total_population_onChange lit d []"
  have v: "total_population (form_values ?d) = Some (Finite 0)"
    by (simp add: total_population_onChange_def unary_plus_def trim_def)
  have t: "total_population_schema (Some (Finite 0)) = Inl [too_small, too_small]"
    by (simp add: total_population_schema_def)
  have s: "speciesSchema after_scheme (form_values ?d)
       = Inl (speciesSchema_issues after_scheme (form_values ?d))"
    by (rule speciesSchema_population_Inl [where cs = "[too_small, too_small]"]) (simp add: v t)
  have m: "(''total_population'', too_small)
       \<in> set (speciesSchema_issues after_scheme (form_values ?d))"
    by (simp add: speciesSchema_issues_def v t issues_at_def)
  have h: "handleSubmit after_scheme ?d response = (?d, [])"
    by (simp add: handleSubmit_def s)
  have f: "form_values (total_population_onChange lit d value)
     = (form_values d)\<lparr>total_population := Some (unary_plus lit value)\<rparr>"
    by (simp add: total_population_onChange_def)
  from v t s m h f show ?thesis by blast
qed

section \<open>Properties of the detail dialog\<close>

text \<open>
  C1. One notification per outcome of a delete or a commit; a failed delete is not
  followed by a success notification. The code departs from this on a failed delete:
  after a confirmed delete that the backend answers with an error, \<open>onDelete\<close> shows
  the failure toast, does not return, refreshes and shows the toast of a successful
  deletion as well, so two notifications are presented.
\<close>

theorem onDelete_failed_shows_success_toast:
  "snd (onDelete d True (Some message)) =
     [window_confirm (js_str ''Are you sure you want to delete this species?''),
      supabase_delete (species_id (species d)),
      toast (js_str ''st went wrong'') message Destructive,
      router_refresh,
      toast (js_str ''Deletion saved!'')
        (js_str ''Deleted '' @ scientific_name (species d) @ js_str '' successfully.'') Default]
   \<and> length (filter is_toast (snd (onDelete d True (Some message)))) = 2"
  by (simp add: onDelete_def)

text \<open>
  C2, as stated: the delete action is rendered exactly when the session identity is the
  record's author, in Viewing and in Editing alike. It fails for an author who is
  editing: the component renders Confirm and Cancel then, and no delete button.
\<close>

theorem delete_button_absent_while_editing:
  "author (species (startEditing
       (SpeciesDetailsDialog (example_species ''Felis catus'' 1) (js_str ''u1''))))
     = currentUser (startEditing
         (SpeciesDetailsDialog (example_species ''Felis catus'' 1) (js_str ''u1'')))
   \<and> isEditing (startEditing
         (SpeciesDetailsDialog (example_species ''Felis catus'' 1) (js_str ''u1'')))
   \<and> Delete_species_button \<notin> set (buttons (startEditing
         (SpeciesDetailsDialog (example_species ''Felis catus'' 1) (js_str ''u1''))))"
  by (simp add: startEditing_def SpeciesDetailsDialog_def example_species_def buttons_def)

text \<open>
  C2, amended: the delete action is rendered exactly when the session identity is the
  record's author and the controller is Viewing. It asks for confirmation first: a
  rejected confirmation leaves the dialog as it was and issues nothing else, and after an
  accepted one the deletion request for the record's identifier follows the
  confirmation and is the only persistence call.
\<close>

theorem delete_button_iff_author_viewing:
  "(Delete_species_button \<in> set (buttons d))
     = (author (species d) = currentUser d \<and> \<not> isEditing d)
   \<and> onDelete d False response
       = (d, [window_confirm (js_str ''Are you sure you want to delete this species?'')])
   \<and> take 2 (snd (onDelete d True response))
       = [window_confirm (js_str ''Are you sure you want to delete this species?''),
          supabase_delete (species_id (species d))]
   \<and> filter is_persistence (snd (onDelete d True response))
       = [supabase_delete (species_id (species d))]"
  by (simp add: buttons_def onDelete_def split: option.split)




text \<open>
  C6. A commit whose update the backend answers with an error shows one destructive
  toast carrying the backend's message and leaves the dialog exactly as it was: the
  editing flag, the draft and the baseline are those from before the submit. This holds
  of \<open>onSubmit\<close> and of the submit handler around it.
\<close>

theorem onSubmit_error_no_transition:
  "onSubmit d input (Some message)
     = (d, [supabase_update (species_id (species d)) input,
            toast (js_str ''st went wrong'') message Destructive])
   \<and> fst (handleSubmit after_scheme d (Some message)) = d"
  by (simp add: onSubmit_def handleSubmit_def split: sum.split)

section \<open>Properties of the list sort controller\<close>










text \<open>
  C4. Re-deriving the displayed ordering does not mutate the source collection. The
  second variant of the list (part_000) departs from this: its effect sorts the array of
  the \<open>initialSpecies\<close> prop in place. Mounted on the collection Zebra, ant it leaves
  the source array holding ant, Zebra. The variant in species-list-client.tsx sorts a
  copy: on the same collection the source still holds Zebra, ant and only the displayed
  array is ant, Zebra.
\<close>

theorem part000_effect_sorts_source_in_place:
  "heap (SpeciesListClient_part000 (map asciiLower) compare_code_units None
       [example_species ''Zebra'' 1, example_species ''ant'' 2]) 0
     = [example_species ''ant'' 2, example_species ''Zebra'' 1]
   \<and> initialSpecies (SpeciesListClient_part000 (map asciiLower) compare_code_units None
       [example_species ''Zebra'' 1, example_species ''ant'' 2]) = 0
   \<and> heap (SpeciesListClient (map asciiLower) compare_code_units
       [example_species ''Zebra'' 1, example_species ''ant'' 2]) 0
     = [example_species ''Zebra'' 1, example_species ''ant'' 2]
   \<and> displayed (SpeciesListClient (map asciiLower) compare_code_units
       [example_species ''Zebra'' 1, example_species ''ant'' 2])
     = [example_species ''ant'' 2, example_species ''Zebra'' 1]"
  by (simp add: SpeciesListClient_part000_def useEffect_sort_part000_def SpeciesListClient_def
      useEffect_sort_def setSpecies_def render_def displayed_def Array_sort_def compareFn_def
      example_species_def js_str_def asciiLower_def Let_def)


end
